theory Spec2Isabelle
  imports Main "HOL-Library.Sublist" "HOL-Library.AList" "HOL-Library.Char_ord"
    "HOL-Library.List_Lexorder"
begin

section \<open>Python strings\<close>

text \<open>
  A Python \<open>str\<close> is modelled as a \<^typ>\<open>string\<close> in which every \<^typ>\<open>char\<close> stands for
  one character (a code point below 256), so that \<^const>\<open>length\<close> is Python's \<open>len\<close> and
  \<^const>\<open>take\<close> is the slice \<open>s[:n]\<close>. \<open>s.startswith(p)\<close> is \<^term>\<open>prefix p s\<close>,
  \<open>s.endswith(p)\<close> is \<^term>\<open>suffix p s\<close> and \<open>p in s\<close> is \<^term>\<open>sublist p s\<close>.
\<close>

definition LF :: char where
  "LF = CHR 0x0A"

definition CR :: char where
  "CR = CHR 0x0D"

definition DQ :: char where
  "DQ = CHR 0x22"

definition SQ :: char where
  "SQ = CHR 0x27"

text \<open>\<open>str.isspace\<close> on one character: TAB to CR, FS to US, space, NEL and NBSP.\<close>

definition py_isspace :: "char \<Rightarrow> bool" where
  "py_isspace c =
     (let n = (of_char c :: nat)
      in (9 \<le> n \<and> n \<le> 13) \<or> (28 \<le> n \<and> n \<le> 32) \<or> n = 133 \<or> n = 160)"

text \<open>\<open>str.strip()\<close>: leading and trailing whitespace removed.\<close>

definition py_strip :: "string \<Rightarrow> string" where
  "py_strip s = rev (dropWhile py_isspace (rev (dropWhile py_isspace s)))"

text \<open>\<open>str.lower()\<close>: the letters A to Z and the upper-case letters of Latin-1.\<close>

definition py_lower_char :: "char \<Rightarrow> char" where
  "py_lower_char c =
     (let n = (of_char c :: nat)
      in if (65 \<le> n \<and> n \<le> 90) \<or> (192 \<le> n \<and> n \<le> 222 \<and> n \<noteq> 215)
         then char_of (n + 32) else c)"

definition py_lower :: "string \<Rightarrow> string" where
  "py_lower s = map py_lower_char s"

text \<open>
  \<open>s.replace(old, new)\<close> for a non-empty \<open>old\<close> (every call of the program passes a
  non-empty literal): the occurrences of \<open>old\<close> are found from the left, without overlap.
\<close>

function py_replace :: "string \<Rightarrow> string \<Rightarrow> string \<Rightarrow> string" where
  "py_replace old new s =
     (if s = [] then []
      else if old \<noteq> [] \<and> prefix old s then new @ py_replace old new (drop (length old) s)
      else hd s # py_replace old new (tl s))"
  by pat_completeness auto
termination
  by (relation "measure (\<lambda>(old, new, s). length s)") auto

declare py_replace.simps [simp del]

text \<open>\<open>s.split('\n')\<close>: the pieces between line feeds; never an empty list.\<close>

fun py_split_lines :: "string \<Rightarrow> string list" where
  "py_split_lines [] = [[]]"
| "py_split_lines (c # cs) =
     (if c = LF then [] # py_split_lines cs
      else (case py_split_lines cs of
              l # ls \<Rightarrow> (c # l) # ls
            | [] \<Rightarrow> [[c]]))"

section \<open>Title resolution (\<open>LocalAudioTranscriber\<close>)\<close>

subsection \<open>Heuristic title: \<open>extract_first_sentence\<close>\<close>

definition sentence_end :: "char \<Rightarrow> bool" where
  "sentence_end c = (c = CHR ''.'' \<or> c = CHR ''!'' \<or> c = CHR ''?'')"

text \<open>\<open>re.split(r'[.!?]+', s)\<close>: the pieces between maximal runs of sentence enders.\<close>

function re_split_sentences :: "string \<Rightarrow> string list" where
  "re_split_sentences s =
     (let piece = takeWhile (\<lambda>c. \<not> sentence_end c) s;
          rest = dropWhile (\<lambda>c. \<not> sentence_end c) s
      in if rest = [] then [piece]
         else piece # re_split_sentences (dropWhile sentence_end rest))"
  by pat_completeness auto
termination
proof (relation "measure length")
  fix s piece rest
  assume r: "rest = dropWhile (\<lambda>c. \<not> sentence_end c) s" and ne: "rest \<noteq> []"
  from ne obtain c cs where rc: "rest = c # cs"
    by (cases rest) auto
  have "sentence_end c"
    using r rc hd_dropWhile [of "\<lambda>c. \<not> sentence_end c" s] by force
  then have "length (dropWhile sentence_end rest) < length rest"
    using rc length_dropWhile_le [of sentence_end cs] by simp
  also have "length rest \<le> length s"
    using r by (simp add: length_dropWhile_le)
  finally show "(dropWhile sentence_end rest, s) \<in> measure length"
    by simp
qed simp

declare re_split_sentences.simps [simp del]

text \<open>The truncation both title paths apply: \<open>if len(t) > 50: t = t[:47] + "..."\<close>.\<close>

definition truncate_title :: "string \<Rightarrow> string" where
  "truncate_title t = (if length t > 50 then take 47 t @ ''...'' else t)"

definition extract_first_sentence :: "string \<Rightarrow> string" where
  "extract_first_sentence transcript =
     (let sentences = re_split_sentences (py_strip transcript);
          first_sentence = (if sentences \<noteq> [] then py_strip (hd sentences)
                            else py_strip transcript);
          first_sentence = py_replace ''  '' '' '' (py_replace [LF] '' '' first_sentence)
      in truncate_title first_sentence)"

subsection \<open>Generated title: the model chain\<close>

definition refusal_phrases :: "string list" where
  "refusal_phrases =
     [''i can not'', ''i cannot'', ''i'm unable'', ''i am unable'',
      ''i'm sorry'', ''i am sorry'', ''i cannot create'',
      ''i can not create'', ''i'm not able'', ''i am not able'']"

definition is_refusal :: "string \<Rightarrow> bool" where
  "is_refusal title = list_ex (\<lambda>phrase. sublist phrase (py_lower title)) refusal_phrases"

text \<open>The clean-up of an accepted response: both quote characters removed, then truncated.\<close>

definition clean_title :: "string \<Rightarrow> string" where
  "clean_title title = truncate_title (py_replace [SQ] [] (py_replace [DQ] [] title))"

definition models_to_try :: "string list" where
  "models_to_try = [''llama3.2:3b'', ''llama3.1:8b'', ''mistral:7b'', ''codellama:7b'']"

text \<open>
  What one \<open>requests.post\<close> to the text-generation service gives: it raises (no
  connection, timeout after 30 seconds), or it returns a status code and a body; the body
  is the \<open>response\<close> field of the JSON document, \<open>None\<close> when the body is not JSON or has no
  such field (then \<open>response.json()\<close> or the subscript raises).
\<close>

datatype http_reply = Raises | Reply nat "string option"

definition title_prompt :: "string \<Rightarrow> string \<Rightarrow> string" where
  \<open>title_prompt transcript filename =
     (let transcript_preview = (if length transcript > 500 then take 500 transcript
                                else transcript)
      in [LF]
        @ ''        Create a catchy, descriptive title (max 50 characters) for this BMIR audio excerpt.'' @ [LF]
        @ ''        Focus on the main topic, theme, or memorable moment from the audio.'' @ [LF]
        @ ''        Make it engaging and descriptive of the content. Avoid generic titles.'' @ [LF]
        @ ''        '' @ [LF]
        @ ''        Transcript: "'' @ transcript_preview @ ''"'' @ [LF]
        @ ''        Original filename: '' @ filename @ [LF]
        @ ''        '' @ [LF]
        @ ''        Return only the title, nothing else.'' @ [LF]
        @ ''        '')\<close>

text \<open>
  The loop over the models: the first response with status 200 that is not a refusal is
  the title; an exception, another status or a refusal moves on to the next model.
\<close>

fun try_models :: "(string \<Rightarrow> http_reply) \<Rightarrow> string list \<Rightarrow> string option" where
  "try_models ask [] = None"
| "try_models ask (model # rest) =
     (case ask model of
        Raises \<Rightarrow> try_models ask rest
      | Reply status_code body \<Rightarrow>
          if status_code = 200 then
            (case body of
               None \<Rightarrow> try_models ask rest
             | Some response \<Rightarrow>
                 let title = py_strip response
                 in if is_refusal title then try_models ask rest
                    else Some (clean_title title))
          else try_models ask rest)"

subsection \<open>The title side file\<close>

text \<open>
  The output directory is a list of files, name and text, in the order in which the
  directory lists them; names are single path components. Writing a text file stores the
  text as it is; reading one in text mode translates every \<open>\r\n\<close> and every lone \<open>\r\<close>
  into \<open>\n\<close> (Python's universal newlines).
\<close>

type_synonym directory = "(string \<times> string) list"

fun read_text :: "string \<Rightarrow> string" where
  "read_text [] = []"
| "read_text [c] = (if c = CR then [LF] else [c])"
| "read_text (c # d # cs) =
     (if c = CR then (if d = LF then LF # read_text cs else LF # read_text (d # cs))
      else c # read_text (d # cs))"

definition title_file_name :: "string \<Rightarrow> string" where
  "title_file_name filename = py_replace ''.mp3'' [] filename @ ''.title''"

definition title_file_content :: "string \<Rightarrow> string \<Rightarrow> string \<Rightarrow> string" where
  "title_file_content filename title transcript =
     ''# Title for '' @ filename @ [LF]
     @ [LF]
     @ ''## Current Title (from first sentence):'' @ [LF]
     @ title @ [LF]
     @ [LF]
     @ ''## Transcript Preview:'' @ [LF]
     @ take 300 transcript @ ''...'' @ [LF]
     @ [LF]
     @ ''## Instructions:'' @ [LF]
     @ ''- The title above was generated from the first sentence of the transcript'' @ [LF]
     @ ''- You can edit it to make it more engaging or descriptive'' @ [LF]
     @ ''- Keep it under 50 characters'' @ [LF]
     @ ''- Replace the title above with your improved version if desired'' @ [LF]
     @ [LF]
     @ ''## Your Title:'' @ [LF]
     @ title @ [LF]"

definition save_title_to_file :: "directory \<Rightarrow> string \<Rightarrow> string \<Rightarrow> string \<Rightarrow> directory" where
  "save_title_to_file dir filename title transcript =
     AList.update (title_file_name filename) (title_file_content filename title transcript) dir"

text \<open>
  The scan of one title file in \<open>load_human_titles\<close>: the first line that is not blank
  and starts neither with \<open>#\<close> nor with \<open>[\<close>, stripped.
\<close>

fun scan_title_lines :: "string list \<Rightarrow> string option" where
  "scan_title_lines [] = None"
| "scan_title_lines (line # lines) =
     (if py_strip line \<noteq> [] \<and> \<not> prefix ''#'' line \<and> \<not> prefix ''['' line then
        (let title = py_strip line
         in if title \<noteq> [] \<and> length title > 0 then Some title
            else scan_title_lines lines)
      else scan_title_lines lines)"

definition load_human_titles :: "directory \<Rightarrow> (string \<rightharpoonup> string)" where
  "load_human_titles dir =
     fold (\<lambda>(name, content) human_titles.
             case scan_title_lines (py_split_lines (read_text content)) of
               Some title \<Rightarrow> human_titles(py_replace ''.title'' ''.mp3'' name \<mapsto> title)
             | None \<Rightarrow> human_titles)
          (filter (\<lambda>(name, content). suffix ''.title'' name) dir)
          Map.empty"

text \<open>
  \<open>generate_title_from_transcript\<close> returns the title and leaves the title file written;
  \<open>ollama model prompt\<close> is the reply of the text-generation service.
\<close>

definition generate_title_from_transcript ::
  "(string \<Rightarrow> string \<Rightarrow> http_reply) \<Rightarrow> directory \<Rightarrow> string \<Rightarrow> string \<Rightarrow> string \<times> directory" where
  "generate_title_from_transcript ollama dir transcript filename =
     (let human_titles = load_human_titles dir
      in case human_titles filename of
           Some human \<Rightarrow> (human, save_title_to_file dir filename human transcript)
         | None \<Rightarrow>
             (let prompt = title_prompt transcript filename
              in case try_models (\<lambda>model. ollama model prompt) models_to_try of
                   Some title \<Rightarrow> (title, save_title_to_file dir filename title transcript)
                 | None \<Rightarrow>
                     (let first_sentence = extract_first_sentence transcript
                      in (first_sentence,
                          save_title_to_file dir filename first_sentence transcript))))"


text \<open>
  A service on which every model fails, each in its own way: the first request raises,
  the second is answered with status 500, the others are answered with a refusal.
\<close>

definition refusing_service :: "string \<Rightarrow> string \<Rightarrow> http_reply" where
  "refusing_service model prompt =
     (if model = ''llama3.2:3b'' then Raises
      else if model = ''llama3.1:8b'' then Reply 500 None
      else Reply 200 (Some ''I cannot create a title for this content.''))"

text \<open>A service whose first model answers with a pair of quote characters and nothing else.\<close>

definition quoting_service :: "string \<Rightarrow> string \<Rightarrow> http_reply" where
  "quoting_service model prompt = Reply 200 (Some [DQ, DQ])"

text \<open>
  The specification's qualifying line of a title file: a line that is not blank and
  starts neither with \<open>#\<close> nor with \<open>[\<close>.
\<close>

definition qualifying_line :: "string \<Rightarrow> bool" where
  "qualifying_line line = (py_strip line \<noteq> [] \<and> \<not> prefix ''#'' line \<and> \<not> prefix ''['' line)"

text \<open>The body of the loop over the title files in \<open>load_human_titles\<close>.\<close>

abbreviation title_step :: "string \<times> string \<Rightarrow> (string \<rightharpoonup> string) \<Rightarrow> (string \<rightharpoonup> string)" where
  "title_step \<equiv> (\<lambda>(name, content) human_titles.
             case scan_title_lines (py_split_lines (read_text content)) of
               Some title \<Rightarrow> human_titles(py_replace ''.title'' ''.mp3'' name \<mapsto> title)
             | None \<Rightarrow> human_titles)"

text \<open>A title file after a person has edited it, with two lines ending in CR LF.\<close>

definition edited_title_file :: string where
  "edited_title_file =
     ''# Title for 01+secret.mp3'' @ [LF]
     @ [CR, LF]
     @ ''[Enter your title here]'' @ [LF]
     @ ''  A Secret Confession '' @ [CR, LF]
     @ ''## Transcript Preview:'' @ [LF]
     @ ''I have a secret...'' @ [LF]"

section \<open>Regular expressions of the program\<close>

text \<open>
  The program uses four patterns, all of one shape: literal text around one greedy
  repetition of a character class. A matcher looks at the start of the text it is given
  and returns the length of the match and the text of group 1 (empty where the pattern
  has no group). In each pattern the literal after the repetition starts with a
  character outside the class, or the match must end at the first such character, so
  the repetition takes the whole run and no shorter run can match.
\<close>

type_synonym matcher = "string \<Rightarrow> (nat \<times> string) option"

definition is_digit :: "char \<Rightarrow> bool" where
  "is_digit c = (48 \<le> (of_char c :: nat) \<and> (of_char c :: nat) \<le> 57)"

definition is_octdigit :: "char \<Rightarrow> bool" where
  "is_octdigit c = (48 \<le> (of_char c :: nat) \<and> (of_char c :: nat) \<le> 55)"

definition is_ascii_letter :: "char \<Rightarrow> bool" where
  "is_ascii_letter c =
     (let n = (of_char c :: nat) in (65 \<le> n \<and> n \<le> 90) \<or> (97 \<le> n \<and> n \<le> 122))"

definition digit_value :: "char \<Rightarrow> nat" where
  "digit_value c = of_char c - 48"

text \<open>\<open>re.search(pattern, s)\<close> as a truth value: the pattern matches somewhere in \<open>s\<close>.\<close>

fun re_search :: "matcher \<Rightarrow> string \<Rightarrow> bool" where
  "re_search m [] = False"
| "re_search m (c # cs) = (m (c # cs) \<noteq> None \<or> re_search m cs)"

text \<open>
  \<open>re.findall(pattern, s)\<close> for a pattern with one group: group 1 of the matches, found
  from the left without overlap. A match is never empty here; the guard \<open>0 < n\<close> lets
  the scan move on in any case.
\<close>

function re_findall :: "matcher \<Rightarrow> string \<Rightarrow> string list" where
  "re_findall m s =
     (if s = [] then []
      else (case m s of
              Some (n, g) \<Rightarrow>
                if 0 < n then g # re_findall m (drop n s) else re_findall m (tl s)
            | None \<Rightarrow> re_findall m (tl s)))"
  by pat_completeness auto
termination
  by (relation "measure (\<lambda>(m, s). length s)") auto

declare re_findall.simps [simp del]

subsection \<open>Replacement templates\<close>

text \<open>
  \<open>re.sub(pattern, repl, s)\<close> with a string \<open>repl\<close> reads \<open>repl\<close> as a template before it
  looks for any match: a template without a backslash is literal text; otherwise
  \<open>\1\<close> and \<open>\g<1>\<close> refer to groups, \<open>\n\<close> and its kin and octal escapes are characters,
  and a reference to a group the pattern does not have, a backslash before another
  ASCII letter or a backslash at the end raise \<open>re.error\<close> (as in CPython 3.12,
  \<open>re._parser.parse_template\<close>). The patterns of the program have no named groups.
\<close>

datatype py_error = ReError | FileNotFoundError

datatype template_item = Lit char | Grp nat

definition BS :: char where
  "BS = CHR 0x5C"

definition escape_char :: "char \<Rightarrow> char option" where
  "escape_char c =
     (if c = CHR ''a'' then Some (CHR 0x07)
      else if c = CHR ''b'' then Some (CHR 0x08)
      else if c = CHR ''f'' then Some (CHR 0x0C)
      else if c = CHR ''n'' then Some (CHR 0x0A)
      else if c = CHR ''r'' then Some (CHR 0x0D)
      else if c = CHR ''t'' then Some (CHR 0x09)
      else if c = CHR ''v'' then Some (CHR 0x0B)
      else if c = BS then Some BS
      else None)"

definition decimal_value :: "string \<Rightarrow> nat" where
  "decimal_value ds = foldl (\<lambda>v d. 10 * v + digit_value d) 0 ds"

definition octal_value :: "string \<Rightarrow> nat" where
  "octal_value ds = foldl (\<lambda>v d. 8 * v + digit_value d) 0 ds"

definition add_item :: "template_item \<Rightarrow> py_error + template_item list \<Rightarrow> py_error + template_item list" where
  "add_item x r = (case r of Inl e \<Rightarrow> Inl e | Inr items \<Rightarrow> Inr (x # items))"

definition add_group :: "nat \<Rightarrow> nat \<Rightarrow> py_error + template_item list \<Rightarrow> py_error + template_item list" where
  "add_group groups index r = (if index > groups then Inl ReError else add_item (Grp index) r)"

function parse_template :: "nat \<Rightarrow> string \<Rightarrow> py_error + template_item list" where
  "parse_template groups s =
     (case s of
        [] \<Rightarrow> Inr []
      | c # cs \<Rightarrow>
          if c \<noteq> BS then add_item (Lit c) (parse_template groups cs)
          else (case cs of
                  [] \<Rightarrow> Inl ReError
                | e # r \<Rightarrow>
                    if e = CHR ''g'' then
                      (if r \<noteq> [] \<and> hd r = CHR ''<'' then
                         (let name = takeWhile (\<lambda>x. x \<noteq> CHR ''>'') (tl r);
                              after = dropWhile (\<lambda>x. x \<noteq> CHR ''>'') (tl r)
                          in if after = [] \<or> name = [] then Inl ReError
                             else if list_all is_digit name then
                               add_group groups (decimal_value name)
                                 (parse_template groups (tl after))
                             else Inl ReError)
                       else Inl ReError)
                    else if e = CHR ''0'' then
                      (let ds = takeWhile is_octdigit (take 2 r)
                       in add_item (Lit (char_of (octal_value ds mod 256)))
                            (parse_template groups (drop (length ds) r)))
                    else if is_digit e then
                      (if r \<noteq> [] \<and> is_digit (hd r) then
                         (if is_octdigit e \<and> is_octdigit (hd r)
                             \<and> tl r \<noteq> [] \<and> is_octdigit (hd (tl r)) then
                            (let v = octal_value [e, hd r, hd (tl r)]
                             in if v > 255 then Inl ReError
                                else add_item (Lit (char_of v))
                                       (parse_template groups (drop 2 r)))
                          else add_group groups (decimal_value [e, hd r])
                                 (parse_template groups (tl r)))
                       else add_group groups (decimal_value [e]) (parse_template groups r))
                    else (case escape_char e of
                            Some x \<Rightarrow> add_item (Lit x) (parse_template groups r)
                          | None \<Rightarrow>
                              if is_ascii_letter e then Inl ReError
                              else add_item (Lit BS)
                                     (add_item (Lit e) (parse_template groups r)))))"
  by pat_completeness auto
termination
proof (relation "measure (\<lambda>(groups, s). length s)", goal_cases)
  case 1
  show ?case by simp
next
  case (3 groups s c cs e r name after)
  have "length after \<le> length (tl r)"
    unfolding 3 by (rule length_dropWhile_le)
  with 3 show ?case by (cases r) auto
qed (auto simp: min_def)

declare parse_template.simps [simp del]

text \<open>The text a compiled template stands for at one match: group 0 is the whole match.\<close>

fun expand_template :: "template_item list \<Rightarrow> string \<Rightarrow> string \<Rightarrow> string" where
  "expand_template [] whole g1 = []"
| "expand_template (Lit c # items) whole g1 = c # expand_template items whole g1"
| "expand_template (Grp i # items) whole g1 =
     (if i = 0 then whole else g1) @ expand_template items whole g1"

function sub_matches :: "matcher \<Rightarrow> template_item list \<Rightarrow> string \<Rightarrow> string" where
  "sub_matches m items s =
     (if s = [] then []
      else (case m s of
              Some (n, g) \<Rightarrow>
                if 0 < n then expand_template items (take n s) g @ sub_matches m items (drop n s)
                else hd s # sub_matches m items (tl s)
            | None \<Rightarrow> hd s # sub_matches m items (tl s)))"
  by pat_completeness auto
termination
  by (relation "measure (\<lambda>(m, items, s). length s)") auto

declare sub_matches.simps [simp del]

text \<open>\<open>re.sub(pattern, repl, s)\<close> for a pattern with \<open>groups\<close> groups and matcher \<open>m\<close>.\<close>

definition re_sub :: "nat \<Rightarrow> matcher \<Rightarrow> string \<Rightarrow> string \<Rightarrow> py_error + string" where
  "re_sub groups m repl s =
     (case parse_template groups repl of
        Inl e \<Rightarrow> Inl e
      | Inr items \<Rightarrow> Inr (sub_matches m items s))"

section \<open>Resource locator: \<open>extract_audio_urls_from_html\<close>\<close>






section \<open>HTML patcher: \<open>update_html_file\<close>\<close>

definition caption_head :: string where
  \<open>caption_head = ''<span style="white-space: nowrap;">''\<close>

definition caption_tail :: "string \<Rightarrow> string" where
  \<open>caption_tail url =
     ''<audio controls preload="none"><source src="'' @ url @ ''" type="audio/mpeg">''\<close>

text \<open>
  The pattern \<open>caption_head (\d+) caption_tail\<close>, with the URL escaped and so literal: the
  digits are the whole run of digits, since the tail starts with \<open><\<close>.
\<close>

definition match_caption :: "string \<Rightarrow> matcher" where
  "match_caption url s =
     (if prefix caption_head s then
        (let r = drop (length caption_head) s;
             digits = takeWhile is_digit r;
             r' = dropWhile is_digit r
         in if digits \<noteq> [] \<and> prefix (caption_tail url) r'
            then Some (length caption_head + length digits + length (caption_tail url), digits)
            else None)
      else None)"

definition caption_replacement :: "string \<Rightarrow> string \<Rightarrow> string" where
  "caption_replacement url title = caption_head @ [BS] @ ''1. '' @ title @ caption_tail url"

definition item_head :: "string \<Rightarrow> string" where
  \<open>item_head url = ''data-audio="'' @ url @ ''">''\<close>

text \<open>The pattern \<open>data-audio="URL">[^<]+</li>\<close>: the inner text runs up to the next \<open><\<close>.\<close>

definition match_item :: "string \<Rightarrow> matcher" where
  "match_item url s =
     (if prefix (item_head url) s then
        (let r = drop (length (item_head url)) s;
             inner = takeWhile (\<lambda>c. c \<noteq> CHR ''<'') r;
             r' = dropWhile (\<lambda>c. c \<noteq> CHR ''<'') r
         in if inner \<noteq> [] \<and> prefix ''</li>'' r'
            then Some (length (item_head url) + length inner + 5, [])
            else None)
      else None)"

definition item_replacement :: "string \<Rightarrow> string \<Rightarrow> string" where
  "item_replacement url title = item_head url @ title @ ''</li>''"

text \<open>The loop over \<open>url_to_title.items()\<close>, a dictionary in insertion order.\<close>

fun replace_titles :: "(string \<times> string) list \<Rightarrow> string \<Rightarrow> py_error + string" where
  "replace_titles [] updated_content = Inr updated_content"
| "replace_titles ((url, title) # rest) updated_content =
     (case re_sub 1 (match_caption url) (caption_replacement url title) updated_content of
        Inl e \<Rightarrow> Inl e
      | Inr c1 \<Rightarrow>
          (case re_sub 0 (match_item url) (item_replacement url title) c1 of
             Inl e \<Rightarrow> Inl e
           | Inr c2 \<Rightarrow> replace_titles rest c2))"

text \<open>
  \<open>update_html_file\<close> returns the error it raised, if any, and the files it leaves. The
  backup is written before the titles are replaced, so it stays when \<open>re.sub\<close> raises.
\<close>

definition update_html_file ::
  "directory \<Rightarrow> string \<Rightarrow> (string \<times> string) list \<Rightarrow> py_error option \<times> directory" where
  "update_html_file fs html_file url_to_title =
     (let backup_file = html_file @ ''.backup''
      in case map_of fs html_file of
           None \<Rightarrow> (Some FileNotFoundError, fs)
         | Some stored \<Rightarrow>
             (let fs1 = (if map_of fs backup_file = None
                         then AList.update backup_file (read_text stored) fs else fs);
                  content = read_text stored
              in case replace_titles url_to_title content of
                   Inl e \<Rightarrow> (Some e, fs1)
                 | Inr updated_content \<Rightarrow>
                     (None, AList.update html_file updated_content fs1)))"


definition horny_url :: string where
  "horny_url = ''https://s3-us-west-1.amazonaws.com/randombmir/random/02+horny.mp3''"








section \<open>Downloads\<close>

text \<open>
  \<open>s.split(sep)\<close> for a separator of one character, \<open>sep.join(xs)\<close>, and the last
  component and the parent of a path.
\<close>

fun py_split :: "char \<Rightarrow> string \<Rightarrow> string list" where
  "py_split sep [] = [[]]"
| "py_split sep (c # cs) =
     (if c = sep then [] # py_split sep cs
      else (case py_split sep cs of
              l # ls \<Rightarrow> (c # l) # ls
            | [] \<Rightarrow> [[c]]))"

fun py_join :: "string \<Rightarrow> string list \<Rightarrow> string" where
  "py_join sep [] = []"
| "py_join sep [x] = x"
| "py_join sep (x # y # ys) = x @ sep @ py_join sep (y # ys)"


definition path_parent :: "string \<Rightarrow> string" where
  "path_parent p = py_join ''/'' (butlast (py_split (CHR ''/'') p))"

text \<open>
  What \<open>requests.get(url, stream=True)\<close> gives: it raises, or it returns a response.
  \<open>status_ok\<close> says that \<open>raise_for_status\<close> does not raise; \<open>declared\<close> is the
  \<open>content-length\<close> header: absent, an integer, or text that \<open>int\<close> rejects; \<open>chunks\<close> is
  what \<open>iter_content\<close> yields, and \<open>stream_breaks\<close> says that it raises after the last
  of them.
\<close>

datatype content_length = NoHeader | Header int | BadHeader

record http_response =
  status_ok :: bool
  declared :: content_length
  chunks :: "string list"
  stream_breaks :: bool

datatype get_result = GetRaises | GetReturns http_response

text \<open>The bytes the loop \<open>for chunk in ...: if chunk: f.write(chunk)\<close> writes.\<close>

definition written_bytes :: "http_response \<Rightarrow> string" where
  "written_bytes r = concat (filter (\<lambda>chunk. chunk \<noteq> []) (chunks r))"

subsection \<open>\<open>AudioBackupDownloader\<close>\<close>

record stats =
  total_files :: nat
  downloaded :: nat
  skipped :: nat
  failed :: nat
  total_size :: nat

text \<open>The dictionary \<open>file_info\<close>, its keys prefixed where a name is in use.\<close>

record file_info =
  info_url :: string
  info_filename :: string
  info_category :: string
  local_path :: string

text \<open>
  The state of the backup: the files on disk by path, the directories that exist, the
  statistics, and the requests sent so far.
\<close>

record backup_state =
  disk :: directory
  dirs :: "string list"
  stats :: stats
  requests :: "string list"

definition categories :: "string list" where
  "categories = [''long+talks'', ''random'', ''camps+and+arts'', ''warnings'']"

text \<open>\<open>unquote\<close> is \<open>urllib.parse.unquote\<close>, a parameter of the model.\<close>

definition get_file_info :: "(string \<Rightarrow> string) \<Rightarrow> string \<Rightarrow> string \<Rightarrow> file_info" where
  "get_file_info unquote backup_dir u =
     (let parts = py_split (CHR ''/'') u;
          name = unquote (last parts);
          cat = (if length parts > 1 then parts ! (length parts - 2) else ''unknown'')
      in \<lparr>info_url = u, info_filename = name, info_category = cat,
          local_path = backup_dir @ ''/'' @ cat @ ''/'' @ name\<rparr>)"

text \<open>
  The \<open>except\<close> branch of \<open>download_file\<close>: the partial file is removed if it exists, and
  the failure is counted.
\<close>

definition download_failed :: "backup_state \<Rightarrow> string \<Rightarrow> bool \<times> backup_state" where
  "download_failed st path =
     (False,
      st\<lparr>disk := (if map_of (disk st) path \<noteq> None then AList.delete path (disk st)
                  else disk st),
         stats := (stats st)\<lparr>failed := failed (stats st) + 1\<rparr>\<rparr>)"

text \<open>\<open>int(response.headers.get('content-length', 0))\<close>; \<open>None\<close> where \<open>int\<close> raises.\<close>

fun declared_size :: "content_length \<Rightarrow> int option" where
  "declared_size NoHeader = Some 0"
| "declared_size (Header n) = Some n"
| "declared_size BadHeader = None"

text \<open>
  \<open>download_file\<close> returns its truth value and the state it leaves. Opening the local
  file for writing raises when its directory does not exist.
\<close>

definition download_file ::
  "(string \<Rightarrow> get_result) \<Rightarrow> backup_state \<Rightarrow> file_info \<Rightarrow> bool \<times> backup_state" where
  "download_file net st fi =
     (case map_of (disk st) (local_path fi) of
        Some existing \<Rightarrow>
          (True, st\<lparr>stats := (stats st)\<lparr>skipped := skipped (stats st) + 1,
                                         total_size := total_size (stats st) + length existing\<rparr>\<rparr>)
      | None \<Rightarrow>
          (let st1 = st\<lparr>requests := requests st @ [info_url fi]\<rparr>
           in case net (info_url fi) of
                GetRaises \<Rightarrow> download_failed st1 (local_path fi)
              | GetReturns response \<Rightarrow>
                  if \<not> status_ok response then download_failed st1 (local_path fi)
                  else (case declared_size (declared response) of
                          None \<Rightarrow> download_failed st1 (local_path fi)
                        | Some declared_length \<Rightarrow>
                            if path_parent (local_path fi) \<notin> set (dirs st1)
                            then download_failed st1 (local_path fi)
                            else
                              (let st2 = st1\<lparr>disk := AList.update (local_path fi)
                                                       (written_bytes response) (disk st1)\<rparr>;
                                   actual_size = length (written_bytes response)
                               in if stream_breaks response
                                  then download_failed st2 (local_path fi)
                                  else if declared_length > 0 \<and> int actual_size \<noteq> declared_length then
                                    (False, st2\<lparr>disk := AList.delete (local_path fi) (disk st2)\<rparr>)
                                  else
                                    (True,
                                     st2\<lparr>stats := (stats st2)
                                            \<lparr>downloaded := downloaded (stats st2) + 1,
                                             total_size := total_size (stats st2)
                                                             + actual_size\<rparr>\<rparr>)))))"

text \<open>The download loop of \<open>process_html_files\<close> over the sorted URLs.\<close>

fun download_all ::
  "(string \<Rightarrow> string) \<Rightarrow> string \<Rightarrow> (string \<Rightarrow> get_result) \<Rightarrow> backup_state \<Rightarrow> string list
     \<Rightarrow> backup_state" where
  "download_all unquote backup_dir net st [] = st"
| "download_all unquote backup_dir net st (u # all_urls) =
     download_all unquote backup_dir net
       (snd (download_file net st (get_file_info unquote backup_dir u))) all_urls"

subsection \<open>\<open>LocalAudioTranscriber\<close>: audio and transcripts\<close>

record transcript_record =
  transcript_text :: string
  audio_path :: string
  transcript_path :: string

text \<open>
  The state of a transcriber: the name of the output directory and its files by name,
  the transcriptions in memory, the requests sent and the audio paths handed to the
  speech-to-text model so far. \<open>new_transcriber\<close> is \<open>__init__\<close> over the files the
  output directory holds: the transcriptions start empty.
\<close>

record transcriber_state =
  output_dir :: string
  output_files :: directory
  transcriptions :: "(string \<times> transcript_record) list"
  fetched :: "string list"
  whisper_calls :: "string list"

definition new_transcriber :: "directory \<Rightarrow> transcriber_state" where
  "new_transcriber files =
     \<lparr>output_dir = ''audio_files'', output_files = files, transcriptions = [],
      fetched = [], whisper_calls = []\<rparr>"

definition download_audio_file ::
  "(string \<Rightarrow> string) \<Rightarrow> (string \<Rightarrow> get_result) \<Rightarrow> transcriber_state \<Rightarrow> string
     \<Rightarrow> string option \<times> transcriber_state" where
  "download_audio_file unquote net st u =
     (let name = unquote (last (py_split (CHR ''/'') u));
          path = output_dir st @ ''/'' @ name
      in if map_of (output_files st) name \<noteq> None then (Some path, st)
         else
           (let st1 = st\<lparr>fetched := fetched st @ [u]\<rparr>
            in case net u of
                 GetRaises \<Rightarrow> (None, st1)
               | GetReturns response \<Rightarrow>
                   if \<not> status_ok response then (None, st1)
                   else
                     (let st2 = st1\<lparr>output_files := AList.update name (written_bytes response)
                                                         (output_files st1)\<rparr>
                      in if stream_breaks response then (None, st2)
                         else (Some path, st2))))"


text \<open>Sample responses and states for the examples below.\<close>

definition short_response :: http_response where
  "short_response =
     \<lparr>status_ok = True, declared = Header 10, chunks = [''ID3'', [], ''x''],
      stream_breaks = False\<rparr>"

definition broken_response :: http_response where
  "broken_response =
     \<lparr>status_ok = True, declared = Header 10, chunks = [''ID3''], stream_breaks = True\<rparr>"

definition secret_info :: file_info where
  "secret_info =
     \<lparr>info_url = ''https://s3-us-west-1.amazonaws.com/randombmir/random/01+secret.mp3'',
      info_filename = ''01+secret.mp3'', info_category = ''random'',
      local_path = ''audio_backup/random/01+secret.mp3''\<rparr>"

definition empty_backup :: backup_state where
  "empty_backup =
     \<lparr>disk = [], dirs = map (\<lambda>c. ''audio_backup/'' @ c) categories,
      stats = \<lparr>total_files = 0, downloaded = 0, skipped = 0, failed = 0, total_size = 0\<rparr>,
      requests = []\<rparr>"



definition plain_unquote :: "string \<Rightarrow> string" where
  "plain_unquote s = s"


section \<open>Properties of the title resolver\<close>






lemma truncate_title_long:
  "50 < length t \<Longrightarrow> truncate_title t = take 47 t @ ''...''"
  by (simp add: truncate_title_def)

lemma truncate_title_short:
  "length t \<le> 50 \<Longrightarrow> truncate_title t = t"
  by (simp add: truncate_title_def)





subsection \<open>Facts about \<open>str.replace\<close>\<close>

lemma py_replace_Nil [simp]: "py_replace old new [] = []"
  by (simp add: py_replace.simps)

lemma py_replace_match:
  "old \<noteq> [] \<Longrightarrow> py_replace old new (old @ s) = new @ py_replace old new s"
  by (subst py_replace.simps) simp

lemma py_replace_skip:
  "\<not> prefix old (c # s) \<Longrightarrow> py_replace old new (c # s) = c # py_replace old new s"
  by (subst py_replace.simps) simp

lemma py_replace_absent: "\<not> sublist old s \<Longrightarrow> py_replace old new s = s"
proof (induction s)
  case Nil
  show ?case by simp
next
  case (Cons c s)
  then have "\<not> prefix old (c # s)" and "\<not> sublist old s"
    by (auto simp: sublist_Cons_right)
  with Cons.IH show ?case
    by (simp add: py_replace_skip)
qed

lemma py_replace_present:
  "old \<noteq> [] \<Longrightarrow> sublist old s \<Longrightarrow> sublist new (py_replace old new s)"
proof (induction s)
  case Nil
  then show ?case by simp
next
  case (Cons c s)
  show ?case
  proof (cases "prefix old (c # s)")
    case True
    then obtain r where "c # s = old @ r"
      by (auto simp: prefix_def)
    then show ?thesis
      using Cons.prems(1) by (simp add: py_replace_match)
  next
    case False
    then have "sublist old s"
      using Cons.prems(2) by (simp add: sublist_Cons_right)
    then have "sublist new (py_replace old new s)"
      using Cons by simp
    then show ?thesis
      using False by (simp add: py_replace_skip sublist_Cons_right)
  qed
qed

lemma unbordered_prefix:
  assumes "old \<noteq> []" and "hd old \<notin> set (tl old)" and "prefix old (p @ old)"
  shows "p = [] \<or> prefix old p"
proof (rule ccontr)
  assume n: "\<not> (p = [] \<or> prefix old p)"
  from assms(3) n obtain us where us: "old = p @ us" "prefix us old"
    by (auto simp: prefix_append)
  with n have "us \<noteq> []"
    by auto
  then have "hd us = hd old"
    using us(2) assms(1) by (cases us; cases old) auto
  moreover have "hd us \<in> set (tl old)"
    using us(1) n \<open>us \<noteq> []\<close> by (cases p) auto
  ultimately show False
    using assms(2) by simp
qed

lemma py_replace_append_old:
  assumes "old \<noteq> []" and "hd old \<notin> set (tl old)"
  shows "py_replace old new (p @ old) = py_replace old new p @ new"
proof (induction p rule: length_induct)
  case (1 p)
  show ?case
  proof (cases "p = []")
    case True
    then show ?thesis
      using py_replace_match [OF assms(1), of new "[]"] by simp
  next
    case False
    show ?thesis
    proof (cases "prefix old p")
      case True
      then obtain r where r: "p = old @ r"
        by (auto simp: prefix_def)
      then have "length r < length p"
        using assms(1) by simp
      then have "py_replace old new (r @ old) = py_replace old new r @ new"
        using 1 by blast
      then show ?thesis
        using r assms(1) by (simp add: py_replace_match)
    next
      case np: False
      obtain c r where cr: "p = c # r"
        using False by (cases p) auto
      have "\<not> prefix old (p @ old)"
        using unbordered_prefix [OF assms, of p] False np by blast
      then have a: "py_replace old new (p @ old) = c # py_replace old new (r @ old)"
        using cr by (simp add: py_replace_skip)
      have b: "py_replace old new p = c # py_replace old new r"
        using np cr by (simp add: py_replace_skip)
      have "py_replace old new (r @ old) = py_replace old new r @ new"
        using 1 cr by simp
      then show ?thesis
        using a b by simp
    qed
  qed
qed

lemma title_file_name_stem:
  assumes "\<not> sublist ''.mp3'' stem"
  shows "title_file_name (stem @ ''.mp3'') = stem @ ''.title''"
proof -
  have "py_replace ''.mp3'' [] (stem @ ''.mp3'') = py_replace ''.mp3'' [] stem @ []"
    by (rule py_replace_append_old) simp_all
  then show ?thesis
    using assms by (simp add: title_file_name_def py_replace_absent)
qed

lemma mp3_name_of_title_file:
  assumes "suffix ''.title'' name"
    and "py_replace ''.title'' ''.mp3'' name = stem @ ''.mp3''"
    and "\<not> sublist ''.mp3'' stem"
  shows "name = stem @ ''.title''"
proof -
  from assms(1) obtain p where p: "name = p @ ''.title''"
    by (auto simp: suffix_def)
  have "py_replace ''.title'' ''.mp3'' (p @ ''.title'') = py_replace ''.title'' ''.mp3'' p @ ''.mp3''"
    by (rule py_replace_append_old) simp_all
  then have k: "py_replace ''.title'' ''.mp3'' p = stem"
    using assms(2) p by simp
  have "\<not> sublist ''.title'' p"
  proof
    assume "sublist ''.title'' p"
    then have "sublist ''.mp3'' (py_replace ''.title'' ''.mp3'' p)"
      by (intro py_replace_present) simp_all
    then show False
      using k assms(3) by simp
  qed
  then have "py_replace ''.title'' ''.mp3'' p = p"
    by (rule py_replace_absent)
  then show ?thesis
    using k p by simp
qed

lemma mp3_name_stem:
  assumes "\<not> sublist ''.title'' stem"
  shows "py_replace ''.title'' ''.mp3'' (stem @ ''.title'') = stem @ ''.mp3''"
proof -
  have "py_replace ''.title'' ''.mp3'' (stem @ ''.title'') = py_replace ''.title'' ''.mp3'' stem @ ''.mp3''"
    by (rule py_replace_append_old) simp_all
  then show ?thesis
    using assms by (simp add: py_replace_absent)
qed

subsection \<open>Human titles\<close>

lemma scan_title_lines_find:
  "scan_title_lines ls = map_option py_strip (find qualifying_line ls)"
  by (induction ls) (auto simp: qualifying_line_def Let_def)

lemma fold_title_step_other:
  "(\<And>n c. (n, c) \<in> set xs \<Longrightarrow> py_replace ''.title'' ''.mp3'' n \<noteq> k) \<Longrightarrow>
   fold title_step xs m k = m k"
proof (induction xs arbitrary: m)
  case Nil
  show ?case by simp
next
  case (Cons x xs)
  obtain n c where x: "x = (n, c)" by (cases x)
  have "py_replace ''.title'' ''.mp3'' n \<noteq> k"
    using Cons.prems [of n c] x by simp
  then have "title_step x m k = m k"
    by (simp add: x split: option.splits)
  moreover have "fold title_step xs (title_step x m) k = title_step x m k"
  proof (rule Cons.IH)
    fix n' c'
    assume "(n', c') \<in> set xs"
    then show "py_replace ''.title'' ''.mp3'' n' \<noteq> k"
      using Cons.prems [of n' c'] by simp
  qed
  ultimately show ?case by simp
qed

lemma load_human_titles_lookup:
  assumes d: "distinct (map fst dir)"
    and f: "map_of dir name = Some content"
    and s: "suffix ''.title'' name"
    and k: "py_replace ''.title'' ''.mp3'' name = k"
    and u: "\<And>n. n \<in> fst ` set dir \<Longrightarrow> suffix ''.title'' n \<Longrightarrow>
              py_replace ''.title'' ''.mp3'' n = k \<Longrightarrow> n = name"
  shows "load_human_titles dir k = scan_title_lines (py_split_lines (read_text content))"
proof -
  have "(name, content) \<in> set dir"
    using f by (rule map_of_SomeD)
  then obtain xs ys where dir: "dir = xs @ (name, content) # ys"
    by (auto simp: in_set_conv_decomp)
  have nx: "name \<notin> fst ` set xs" and ny: "name \<notin> fst ` set ys"
    using d dir by auto
  let ?P = "\<lambda>(name, content). suffix ''.title'' name"
  have ox: "py_replace ''.title'' ''.mp3'' n \<noteq> k" if "(n, c) \<in> set (filter ?P xs)" for n c
  proof
    assume "py_replace ''.title'' ''.mp3'' n = k"
    moreover have "n \<in> fst ` set dir" and "suffix ''.title'' n"
      using that dir by force+
    ultimately have "n = name" by (rule u [rotated 2])
    then show False
      using that nx by force
  qed
  have oy: "py_replace ''.title'' ''.mp3'' n \<noteq> k" if "(n, c) \<in> set (filter ?P ys)" for n c
  proof
    assume "py_replace ''.title'' ''.mp3'' n = k"
    moreover have "n \<in> fst ` set dir" and "suffix ''.title'' n"
      using that dir by force+
    ultimately have "n = name" by (rule u [rotated 2])
    then show False
      using that ny by force
  qed
  define m1 where "m1 = fold title_step (filter ?P xs) Map.empty"
  have m1: "m1 k = None"
    unfolding m1_def using ox by (subst fold_title_step_other) auto
  have "load_human_titles dir k
          = fold title_step (filter ?P ys) (title_step (name, content) m1) k"
    using s by (simp add: load_human_titles_def dir m1_def)
  also have "\<dots> = title_step (name, content) m1 k"
    using oy by (rule fold_title_step_other)
  also have "\<dots> = scan_title_lines (py_split_lines (read_text content))"
    using m1 k by (simp split: option.splits)
  finally show ?thesis .
qed

lemma load_human_titles_stem:
  assumes "distinct (map fst dir)"
    and "\<not> sublist ''.mp3'' stem" and "\<not> sublist ''.title'' stem"
    and "map_of dir (title_file_name (stem @ ''.mp3'')) = Some content"
  shows "load_human_titles dir (stem @ ''.mp3'')
           = scan_title_lines (py_split_lines (read_text content))"
proof (rule load_human_titles_lookup [OF assms(1) assms(4)])
  show "suffix ''.title'' (title_file_name (stem @ ''.mp3''))"
    by (simp add: title_file_name_def suffix_def)
  show "py_replace ''.title'' ''.mp3'' (title_file_name (stem @ ''.mp3'')) = stem @ ''.mp3''"
    using assms(2,3) by (simp add: title_file_name_stem mp3_name_stem)
  show "n = title_file_name (stem @ ''.mp3'')"
    if "n \<in> fst ` set dir" "suffix ''.title'' n"
       "py_replace ''.title'' ''.mp3'' n = stem @ ''.mp3''" for n
    using that assms(2) by (simp add: title_file_name_stem mp3_name_of_title_file)
qed







lemma read_text_Cons: "c \<noteq> CR \<Longrightarrow> read_text (c # s) = c # read_text s"
  by (cases s) simp_all

lemma read_text_append: "CR \<notin> set a \<Longrightarrow> read_text (a @ b) = a @ read_text b"
  by (induction a) (auto simp: read_text_Cons)

lemma py_split_lines_LF: "py_split_lines (LF # s) = [] # py_split_lines s"
  by simp

lemma py_split_lines_not_Nil: "py_split_lines s \<noteq> []"
  by (induction s) (auto split: list.splits)

lemma py_split_lines_line:
  "LF \<notin> set a \<Longrightarrow> py_split_lines (a @ LF # b) = a # py_split_lines b"
  by (induction a) (auto split: list.splits)

lemma title_file_lines:
  assumes "LF \<notin> set filename" "CR \<notin> set filename" "LF \<notin> set title" "CR \<notin> set title"
  shows "\<exists>rest. py_split_lines (read_text (title_file_content filename title transcript))
           = (''# Title for '' @ filename) # [] # ''## Current Title (from first sentence):''
             # title # rest"
proof -
  define rest where "rest = [LF]
     @ ''## Transcript Preview:'' @ [LF]
     @ take 300 transcript @ ''...'' @ [LF]
     @ [LF]
     @ ''## Instructions:'' @ [LF]
     @ ''- The title above was generated from the first sentence of the transcript'' @ [LF]
     @ ''- You can edit it to make it more engaging or descriptive'' @ [LF]
     @ ''- Keep it under 50 characters'' @ [LF]
     @ ''- Replace the title above with your improved version if desired'' @ [LF]
     @ [LF]
     @ ''## Your Title:'' @ [LF]
     @ title @ [LF]"
  have c: "title_file_content filename title transcript
             = (''# Title for '' @ filename) @ LF # LF #
               ''## Current Title (from first sentence):'' @ LF # title @ LF # rest"
    by (simp add: title_file_content_def rest_def)
  have "read_text (title_file_content filename title transcript)
          = ((''# Title for '' @ filename) @ LF # LF #
               ''## Current Title (from first sentence):'' @ LF # title @ [LF]) @ read_text rest"
    unfolding c using assms by (subst read_text_append [symmetric]) (auto simp: CR_def LF_def)
  also have "\<dots> = (''# Title for '' @ filename) @ LF # LF #
               ''## Current Title (from first sentence):'' @ LF # title @ LF # read_text rest"
    by simp
  finally have r: "read_text (title_file_content filename title transcript)
      = (''# Title for '' @ filename) @ LF # LF #
               ''## Current Title (from first sentence):'' @ LF # title @ LF # read_text rest" .
  have l2: "LF \<notin> set ''## Current Title (from first sentence):''"
    by (simp add: LF_def)
  have l0: "LF \<notin> set (''# Title for '' @ filename)"
    using assms(1) by (simp add: LF_def)
  show ?thesis
    unfolding r
    by (simp only: py_split_lines_line [OF l0] py_split_lines_line [OF l2]
          py_split_lines_line [OF assms(3)] py_split_lines_LF) blast
qed

text \<open>
  Claim C2 (human override precedence), as the code has it. Take an audio file name
  \<open>stem.mp3\<close> whose stem contains neither \<open>.mp3\<close> nor \<open>.title\<close>, in a directory of
  uniquely named files. If its title file exists and \<open>line\<close> is the first line of that
  file that is not blank and starts neither with \<open>#\<close> nor with \<open>[\<close>, the resolved title
  is \<open>line\<close> with its leading and trailing whitespace stripped, whatever the transcript
  says and whatever the models answer.
\<close>

theorem human_override_precedence:
  assumes "distinct (map fst dir)"
    and "\<not> sublist ''.mp3'' stem" and "\<not> sublist ''.title'' stem"
    and "map_of dir (title_file_name (stem @ ''.mp3'')) = Some content"
    and "find qualifying_line (py_split_lines (read_text content)) = Some line"
  shows "fst (generate_title_from_transcript ollama dir transcript (stem @ ''.mp3''))
           = py_strip line"
proof -
  have "load_human_titles dir (stem @ ''.mp3'') = Some (py_strip line)"
    using load_human_titles_stem [OF assms(1-4)] assms(5)
    by (simp add: scan_title_lines_find)
  then show ?thesis
    by (simp add: generate_title_from_transcript_def)
qed

theorem human_override_precedence_counterexample:
  "map_of [(''01+secret.title'', '' My Title '')] (title_file_name ''01+secret.mp3'')
     = Some '' My Title ''
   \<and> find qualifying_line (py_split_lines (read_text '' My Title '')) = Some '' My Title ''
   \<and> fst (generate_title_from_transcript refusing_service
            [(''01+secret.title'', '' My Title '')] ''Some words. More.'' ''01+secret.mp3'')
       = ''My Title''
   \<and> map_of [(''a.title.title'', ''Pinned'')] (title_file_name ''a.title.mp3'') = Some ''Pinned''
   \<and> find qualifying_line (py_split_lines (read_text ''Pinned'')) = Some ''Pinned''
   \<and> fst (generate_title_from_transcript refusing_service
            [(''a.title.title'', ''Pinned'')] ''Some words. More.'' ''a.title.mp3'')
       = ''Some words''"
  by code_simp

theorem human_override_precedence_witness:
  "distinct (map fst [(''01+secret.mp3'', ''ID3''), (''01+secret.title'', edited_title_file)])
   \<and> \<not> sublist ''.mp3'' ''01+secret'' \<and> \<not> sublist ''.title'' ''01+secret''
   \<and> map_of [(''01+secret.mp3'', ''ID3''), (''01+secret.title'', edited_title_file)]
         (title_file_name ''01+secret.mp3'') = Some edited_title_file
   \<and> find qualifying_line (py_split_lines (read_text edited_title_file))
       = Some ''  A Secret Confession ''
   \<and> fst (generate_title_from_transcript quoting_service
            [(''01+secret.mp3'', ''ID3''), (''01+secret.title'', edited_title_file)]
            ''I have a secret. Nobody knows.'' ''01+secret.mp3'')
       = ''A Secret Confession''"
proof -
  have h1: "distinct (map fst [(''01+secret.mp3'', ''ID3''), (''01+secret.title'', edited_title_file)])"
    by simp
  have h2: "\<not> sublist ''.mp3'' ''01+secret''"
    by code_simp
  have h3: "\<not> sublist ''.title'' ''01+secret''"
    by code_simp
  have h4: "map_of [(''01+secret.mp3'', ''ID3''), (''01+secret.title'', edited_title_file)]
         (title_file_name (''01+secret'' @ ''.mp3'')) = Some edited_title_file"
    by code_simp
  have h5: "find qualifying_line (py_split_lines (read_text edited_title_file))
       = Some ''  A Secret Confession ''"
    by code_simp
  have s: "py_strip ''  A Secret Confession '' = ''A Secret Confession''"
    by code_simp
  show ?thesis
    using human_override_precedence [OF h1 h2 h3 h4 h5, of quoting_service
            "''I have a secret. Nobody knows.''"] h1 h2 h3 h4 h5 s
    by simp
qed

text \<open>
  Claim C5 (title file round trip), as the code has it. Take an audio file name
  \<open>stem.mp3\<close> as above, without line breaks, and a title \<open>t\<close> that is not empty, has no
  leading or trailing whitespace, contains no line break (LF or CR) and starts neither
  with \<open>#\<close> nor with \<open>[\<close>. After \<open>save_title_to_file\<close> has written the title file,
  \<open>load_human_titles\<close> maps the file name to exactly \<open>t\<close>, and the next title resolution
  for this file returns \<open>t\<close> for every transcript and every answer of the models.
\<close>

theorem title_file_round_trip:
  assumes "distinct (map fst dir)"
    and "\<not> sublist ''.mp3'' stem" and "\<not> sublist ''.title'' stem"
    and "LF \<notin> set stem" and "CR \<notin> set stem"
    and "t \<noteq> []" and "py_strip t = t" and "LF \<notin> set t" and "CR \<notin> set t"
    and "\<not> prefix ''#'' t" and "\<not> prefix ''['' t"
  shows "load_human_titles (save_title_to_file dir (stem @ ''.mp3'') t transcript)
           (stem @ ''.mp3'') = Some t
         \<and> fst (generate_title_from_transcript ollama
                  (save_title_to_file dir (stem @ ''.mp3'') t transcript)
                  transcript' (stem @ ''.mp3'')) = t"
proof -
  let ?dir = "save_title_to_file dir (stem @ ''.mp3'') t transcript"
  let ?content = "title_file_content (stem @ ''.mp3'') t transcript"
  have d: "distinct (map fst ?dir)"
    using assms(1) by (simp add: save_title_to_file_def distinct_update)
  have f: "map_of ?dir (title_file_name (stem @ ''.mp3'')) = Some ?content"
    by (simp add: save_title_to_file_def update_conv')
  obtain rest where lines: "py_split_lines (read_text ?content)
      = (''# Title for '' @ stem @ ''.mp3'') # [] # ''## Current Title (from first sentence):''
        # t # rest"
    using title_file_lines [of "stem @ ''.mp3''" t transcript] assms(4,5,8,9)
    by (auto simp: LF_def CR_def)
  have "scan_title_lines (py_split_lines (read_text ?content)) = Some t"
    unfolding lines using assms(6,7,10,11) by (simp add: py_strip_def)
  then have l: "load_human_titles ?dir (stem @ ''.mp3'') = Some t"
    using load_human_titles_stem [OF d assms(2,3) f] by simp
  then show ?thesis
    by (simp add: generate_title_from_transcript_def)
qed

theorem title_file_round_trip_counterexample:
  "load_human_titles (save_title_to_file [] ''01+secret.mp3'' '' Lost at night''
      ''We got lost at night. It was cold.'') ''01+secret.mp3'' = Some ''Lost at night''
   \<and> load_human_titles (save_title_to_file [] ''01+secret.mp3'' '' ''
      ''We got lost at night. It was cold.'') ''01+secret.mp3''
     = Some ''We got lost at night. It was cold....''"
  by code_simp

theorem title_file_round_trip_witness:
  "load_human_titles (save_title_to_file [(''01+secret.mp3'', ''ID3'')] ''01+secret.mp3''
      ''A Secret Confession'' ''I have a secret. Nobody knows.'') ''01+secret.mp3''
     = Some ''A Secret Confession''
   \<and> fst (generate_title_from_transcript quoting_service
           (save_title_to_file [(''01+secret.mp3'', ''ID3'')] ''01+secret.mp3''
              ''A Secret Confession'' ''I have a secret. Nobody knows.'')
           ''Another transcript. Entirely.'' ''01+secret.mp3'') = ''A Secret Confession''"
proof -
  have h1: "distinct (map fst [(''01+secret.mp3'', ''ID3'')])"
    by simp
  have h2: "\<not> sublist ''.mp3'' ''01+secret''" and h3: "\<not> sublist ''.title'' ''01+secret''"
    by code_simp+
  have h4: "LF \<notin> set ''01+secret''" and h5: "CR \<notin> set ''01+secret''"
    by (simp_all add: LF_def CR_def)
  have t1: "''A Secret Confession'' \<noteq> []"
    and t2: "py_strip ''A Secret Confession'' = ''A Secret Confession''"
    and t3: "LF \<notin> set ''A Secret Confession''" and t4: "CR \<notin> set ''A Secret Confession''"
    and t5: "\<not> prefix ''#'' ''A Secret Confession''"
    and t6: "\<not> prefix ''['' ''A Secret Confession''"
    by code_simp+
  show ?thesis
    using title_file_round_trip [OF h1 h2 h3 h4 h5 t1 t2 t3 t4 t5 t6, of
            "''I have a secret. Nobody knows.''" quoting_service
            "''Another transcript. Entirely.''"]
    by simp
qed



section \<open>Properties of the resource locator\<close>

lemma re_findall_Nil [simp]: "re_findall m [] = []"
  by (simp add: re_findall.simps)







section \<open>Properties of the HTML patcher\<close>



subsection \<open>Substitution: facts about \<open>re.sub\<close> and the two patterns\<close>

lemma sub_matches_Nil [simp]: "sub_matches m items [] = []"
  by (simp add: sub_matches.simps)







lemma add_item_Inr [simp]: "add_item x (Inr items) = Inr (x # items)"
  by (simp add: add_item_def)

lemma parse_template_Nil [simp]: "parse_template groups [] = Inr []"
  by (simp add: parse_template.simps)




lemma expand_template_literal [simp]: "expand_template (map Lit repl) whole g = repl"
  by (induction repl) simp_all






























text \<open>
  A title with a backslash before a letter makes \<open>re.sub\<close> raise, also for a URL that
  the document does not hold; the backup is written by then and the document is not.
\<close>

lemma backslash_title_raises:
  "\<not> re_search (match_item horny_url) ''<p>no audio here</p>''
   \<and> \<not> re_search (match_caption horny_url) ''<p>no audio here</p>''
   \<and> replace_titles [(horny_url, ''AC'' @ [BS] @ ''DC'')] ''<p>no audio here</p>'' = Inl ReError
   \<and> update_html_file [(''index.html'', ''<p>no audio here</p>'')] ''index.html''
         [(horny_url, ''AC'' @ [BS] @ ''DC'')]
       = (Some ReError, [(''index.html'', ''<p>no audio here</p>''),
                         (''index.html.backup'', ''<p>no audio here</p>'')])"
  by code_simp



section \<open>Properties of the downloads and of the transcript cache\<close>

lemma download_failed_no_file:
  "map_of (disk (snd (download_failed st path))) path = None"
  by (auto simp: download_failed_def delete_conv')

lemma download_failed_other:
  "p \<noteq> path \<Longrightarrow> map_of (disk (snd (download_failed st path))) p = map_of (disk st) p"
  by (auto simp: download_failed_def delete_conv')

lemma download_file_failure_leaves_no_file:
  "\<not> fst (download_file net st fi) \<Longrightarrow>
   map_of (disk (snd (download_file net st fi))) (local_path fi) = None"
  by (auto simp: download_file_def Let_def download_failed_no_file delete_conv' download_failed_def
           split: option.splits get_result.splits if_splits)

text \<open>
  Claim C6 (size mismatch), as the code has it, for \<open>AudioBackupDownloader.download_file\<close>.
  When the local file does not exist yet, the response is good, declares a positive
  content length and delivers a different number of bytes, \<open>download_file\<close> returns
  \<open>False\<close>, leaves no file at the local path and every other file as it was, has sent
  exactly one request, and leaves the statistics as they were. After any failed
  \<open>download_file\<close> no file is left at the local path. The download loop goes on with
  the remaining URLs from the state the failed download leaves.
\<close>

theorem size_mismatch_discards:
  assumes "map_of (disk st) (local_path fi) = None"
    and "net (info_url fi) = GetReturns response"
    and "status_ok response" and "\<not> stream_breaks response"
    and "declared response = Header n" and "0 < n"
    and "path_parent (local_path fi) \<in> set (dirs st)"
    and "int (length (written_bytes response)) \<noteq> n"
  shows "\<not> fst (download_file net st fi)
         \<and> map_of (disk (snd (download_file net st fi))) (local_path fi) = None
         \<and> (\<forall>p. p \<noteq> local_path fi \<longrightarrow>
               map_of (disk (snd (download_file net st fi))) p = map_of (disk st) p)
         \<and> requests (snd (download_file net st fi)) = requests st @ [info_url fi]
         \<and> stats (snd (download_file net st fi)) = stats st
         \<and> (\<forall>net' st' fi'. \<not> fst (download_file net' st' fi') \<longrightarrow>
               map_of (disk (snd (download_file net' st' fi'))) (local_path fi') = None)
         \<and> (\<forall>unquote backup_dir u all_urls.
               get_file_info unquote backup_dir u = fi \<longrightarrow>
               download_all unquote backup_dir net st (u # all_urls)
                 = download_all unquote backup_dir net (snd (download_file net st fi)) all_urls)"
proof -
  have r: "download_file net st fi
             = (False, st\<lparr>requests := requests st @ [info_url fi],
                          disk := AList.delete (local_path fi)
                                    (AList.update (local_path fi) (written_bytes response)
                                       (disk st))\<rparr>)"
    using assms by (simp add: download_file_def Let_def)
  have a: "\<not> fst (download_file net st fi)"
    and b: "map_of (disk (snd (download_file net st fi))) (local_path fi) = None"
    and c: "requests (snd (download_file net st fi)) = requests st @ [info_url fi]"
    and d: "stats (snd (download_file net st fi)) = stats st"
    by (simp_all add: r delete_conv')
  have e: "map_of (disk (snd (download_file net st fi))) p = map_of (disk st) p"
    if "p \<noteq> local_path fi" for p
    using that by (simp add: r delete_conv' update_conv')
  show ?thesis
    using a b c d e download_file_failure_leaves_no_file by simp
qed

theorem size_mismatch_discards_witness:
  "\<not> fst (download_file (\<lambda>u. GetReturns short_response) empty_backup secret_info)
   \<and> disk (snd (download_file (\<lambda>u. GetReturns short_response) empty_backup secret_info)) = []
   \<and> requests (snd (download_file (\<lambda>u. GetReturns short_response) empty_backup secret_info))
       = [info_url secret_info]
   \<and> length (written_bytes short_response) = 4"
proof -
  have h1: "map_of (disk empty_backup) (local_path secret_info) = None"
    by (simp add: empty_backup_def)
  have h2: "(\<lambda>u. GetReturns short_response) (info_url secret_info) = GetReturns short_response"
    by simp
  have h3: "status_ok short_response" and h4: "\<not> stream_breaks short_response"
    and h5: "declared short_response = Header 10"
    by (simp_all add: short_response_def)
  have h6: "(0::int) < 10"
    by simp
  have h7: "path_parent (local_path secret_info) \<in> set (dirs empty_backup)"
    by code_simp
  have w: "length (written_bytes short_response) = 4"
    by code_simp
  have h8: "int (length (written_bytes short_response)) \<noteq> 10"
    by (simp add: w)
  have d: "disk (snd (download_file (\<lambda>u. GetReturns short_response) empty_backup secret_info)) = []"
    by code_simp
  show ?thesis
    using size_mismatch_discards [OF h1 h2 h3 h4 h5 h6 h7 h8] d w
    by (simp add: empty_backup_def)
qed

theorem size_mismatch_discards_counterexample:
  "fst (download_audio_file plain_unquote (\<lambda>u. GetReturns short_response) (new_transcriber [])
          ''https://s3-us-west-1.amazonaws.com/randombmir/random/01+secret.mp3'')
     = Some ''audio_files/01+secret.mp3''
   \<and> output_files (snd (download_audio_file plain_unquote (\<lambda>u. GetReturns short_response)
          (new_transcriber [])
          ''https://s3-us-west-1.amazonaws.com/randombmir/random/01+secret.mp3''))
     = [(''01+secret.mp3'', ''ID3x'')]
   \<and> declared short_response = Header 10
   \<and> fst (download_audio_file plain_unquote (\<lambda>u. GetReturns broken_response) (new_transcriber [])
          ''https://s3-us-west-1.amazonaws.com/randombmir/random/01+secret.mp3'') = None
   \<and> output_files (snd (download_audio_file plain_unquote (\<lambda>u. GetReturns broken_response)
          (new_transcriber [])
          ''https://s3-us-west-1.amazonaws.com/randombmir/random/01+secret.mp3''))
     = [(''01+secret.mp3'', ''ID3'')]"
  by code_simp




end
